theory Spec2Isabelle
  imports Complex_Main "HOL-Library.Char_ord" "HOL-Library.List_Lexorder"
begin

section \<open>Gloob: the runtime of the interpreter\<close>

text \<open>
  The Go sources are embedded function by function.  A pointer to a scope, an array or an
  object is an address into a store kept in the interpreter state: the three kinds of
  value are shared by reference in the source, and closures keep their declaration scope alive.
  A \<open>float64\<close> is idealised as a real number: rounding, infinities and NaN are outside of
  this model, and so are conversions to \<open>int\<close> of magnitudes beyond 64 bits.
  A Go string is its list of bytes.
\<close>

subsection \<open>Syntax trees (package parser)\<close>

text \<open>
  The nodes that \<open>Evaluate\<close> dispatches on, with the fields of the Go structs in their
  order: an object literal is its list of properties, an \<open>if\<close> carries its list of
  else-if clauses (condition and body), and a loop carries the fields of all four loop
  forms, of which \<open>Condition\<close>, \<open>From\<close>, \<open>To\<close> and \<open>Increment\<close> may be nil.  The root
  \<open>Program\<close> is produced once by the parser and is evaluated by \<open>evaluateProgram\<close>.
\<close>

datatype node =
    Numeric real
  | Boolean bool
  | Null
  | String string
  | BinaryExpression node string node
  | Identifier string
  | Object "(string \<times> node) list"
  | Array "node list"
  | ArrayIndex node node
  | MemberAccess node string
  | CallExpression node "node list"
  | VariableDeclaration bool string "node option"
  | VariableAssignmentExpression node node
  | FunctionDeclaration string "string list" "node list"
  | IfStatement node "node list" "(node \<times> node list) list" "node list"
  | LoopStatement "node option" "node list" string "node option" "node option" "node option" bool
  | BreakExpression
  | ReturnStatement "node option"
  | ImportStatement string

subsection \<open>Runtime values (package values)\<close>

text \<open>
  A native function value is a Go closure.  The closures the sources build are the bound
  methods of arrays and strings and the global built-ins; a bound array method is
  represented by its name and the address of the array it closes over.
\<close>

datatype native =
    ArrayPush nat
  | ArrayPop nat
  | ArrayLen nat
  | ArrayRemove nat
  | ArrayInsert nat
  | ArrayIndexOf nat
  | ArrayContains nat
  | ArrayJoin nat
  | ArrayReverse nat
  | StringMethod string string
  | Builtin string

datatype RuntimeValue =
    NumericValue real
  | BooleanValue bool
  | NullValue
  | StringValue string
  | NodeVariableDeclaration string RuntimeValue
  | ObjectValue nat
  | FunctionValue string "string list" "node list" nat
  | BreakValue
  | ReturnValue RuntimeValue
  | ArrayValue nat
  | NativeFunctionValue native

text \<open>
  Every runtime error of the sources prints a message and calls \<open>os.Exit(1)\<close>; a Go
  run-time panic ends the process as well.  Both are outcomes of the model, next to the
  outcome of an evaluation that has not finished.
\<close>

datatype error =
    VariableAlreadyDeclared string
  | ConstantAssignment string
  | VariableNotFound string
  | VariableNotInitialized string
  | InvalidOperandTypes
  | UnknownStringOperator string
  | DivideByZero
  | UnknownOperator string
  | InvalidAssignmentTarget
  | PropertyOnNonObject string
  | PropertyNotFound string
  | AssignPropertyOnNonObject string
  | CannotIndexNonArray
  | ArrayIndexMustBeNumeric
  | ArrayIndexOutOfBounds int nat
  | IndexMustBeNumeric
  | StringIndexOutOfBounds int nat
  | CannotIndexType
  | ArityMismatch string nat nat
  | CannotCallNonFunction
  | CannotCompare string
  | UnknownLogicalOperator string
  | UnknownComparisonOperator string
  | NullOperator string
  | RangeLoopNotNumeric
  | RangeIncrementNotNumeric
  | ForEachRequiresArray
  | UnknownNodeType
  | UnknownArrayMethod string
  | UnknownStringMethod string
  | PushArity nat
  | PopFromEmptyArray
  | RemoveArity nat
  | RemoveIndexNotNumeric
  | InsertArity nat
  | InsertIndexNotNumeric
  | MethodIndexOutOfBounds int

datatype panic = NilDereference | IntegerDivideByZero | NegativeRepeatCount | TypeAssertion | IndexOutOfRange

datatype 'a outcome = Ok 'a | Exit error | Panic panic | Unfinished

definition bind :: "'a outcome \<Rightarrow> ('a \<Rightarrow> 'b outcome) \<Rightarrow> 'b outcome" where
  "bind m f = (case m of Ok x \<Rightarrow> f x | Exit e \<Rightarrow> Exit e | Panic p \<Rightarrow> Panic p | Unfinished \<Rightarrow> Unfinished)"

subsection \<open>Scopes (package scope)\<close>

record Scope =
  parent :: "nat option"
  variables :: "string \<rightharpoonup> RuntimeValue"
  constants :: "string set"

record state =
  scopes :: "nat \<rightharpoonup> Scope"
  nextScope :: nat
  arrays :: "nat \<rightharpoonup> RuntimeValue list"
  nextArray :: nat
  objects :: "nat \<rightharpoonup> (string \<rightharpoonup> RuntimeValue)"
  nextObject :: nat

definition NewScope :: "nat option \<Rightarrow> state \<Rightarrow> nat \<times> state" where
  "NewScope p st =
     (nextScope st,
      st\<lparr>scopes := (scopes st)(nextScope st \<mapsto> \<lparr>parent = p, variables = Map.empty, constants = {}\<rparr>),
         nextScope := Suc (nextScope st)\<rparr>)"

definition Declare :: "nat \<Rightarrow> string \<Rightarrow> RuntimeValue \<Rightarrow> bool \<Rightarrow> state \<Rightarrow> (RuntimeValue \<times> state) outcome" where
  "Declare s name val isConstant st =
     (case scopes st s of
        None \<Rightarrow> Panic NilDereference
      | Some sc \<Rightarrow>
          (case variables sc name of
             Some old \<Rightarrow> Exit (VariableAlreadyDeclared name)
           | None \<Rightarrow>
               Ok (val, st\<lparr>scopes := (scopes st)(s \<mapsto>
                     sc\<lparr>constants := (if isConstant then insert name (constants sc) else constants sc),
                        variables := (variables sc)(name \<mapsto> val)\<rparr>)\<rparr>)))"

text \<open>
  \<open>Resolve\<close> follows the parent pointers.  Nothing in the function bounds the walk, so it
  is a partial function: on a cyclic chain it has no result.
\<close>

partial_function (option) Resolve :: "state \<Rightarrow> nat \<Rightarrow> string \<Rightarrow> nat outcome option" where
  "Resolve st s name =
     (case scopes st s of
        None \<Rightarrow> Some (Panic NilDereference)
      | Some sc \<Rightarrow>
          (case variables sc name of
             Some v \<Rightarrow> Some (Ok s)
           | None \<Rightarrow>
               (case parent sc of
                  Some p \<Rightarrow> Resolve st p name
                | None \<Rightarrow> Some (Exit (VariableNotFound name)))))"

definition resolved :: "state \<Rightarrow> nat \<Rightarrow> string \<Rightarrow> nat outcome" where
  "resolved st s name = (case Resolve st s name of None \<Rightarrow> Unfinished | Some r \<Rightarrow> r)"

definition Assign :: "nat \<Rightarrow> string \<Rightarrow> RuntimeValue \<Rightarrow> state \<Rightarrow> (RuntimeValue \<times> state) outcome" where
  "Assign s name val st =
     bind (resolved st s name) (\<lambda>d.
       case scopes st d of
         None \<Rightarrow> Panic NilDereference
       | Some sc \<Rightarrow>
           if name \<in> constants sc then Exit (ConstantAssignment name)
           else Ok (val, st\<lparr>scopes := (scopes st)(d \<mapsto> sc\<lparr>variables := (variables sc)(name \<mapsto> val)\<rparr>)\<rparr>))"

definition Get :: "nat \<Rightarrow> string \<Rightarrow> state \<Rightarrow> RuntimeValue outcome" where
  "Get s name st =
     bind (resolved st s name) (\<lambda>d.
       case scopes st d of
         None \<Rightarrow> Panic NilDereference
       | Some sc \<Rightarrow>
           (case variables sc name of
              None \<Rightarrow> Exit (VariableNotInitialized name)
            | Some v \<Rightarrow> Ok v))"

text \<open>\<open>GetVariables\<close> hands out the map itself; the loops write the loop variable into it.\<close>

definition setVariable :: "nat \<Rightarrow> string \<Rightarrow> RuntimeValue \<Rightarrow> state \<Rightarrow> state outcome" where
  "setVariable s name val st =
     (case scopes st s of
        None \<Rightarrow> Panic NilDereference
      | Some sc \<Rightarrow> Ok (st\<lparr>scopes := (scopes st)(s \<mapsto> sc\<lparr>variables := (variables sc)(name \<mapsto> val)\<rparr>)\<rparr>))"

subsection \<open>Operators on values (package interpreter)\<close>

text \<open>
  The functions below follow the file of the evaluator.  Go's library and the built-ins
  that are not part of this development are the \<open>host\<close>: \<open>display\<close> is the text that
  \<open>fmt\<close> prints for a value through its \<open>String\<close> method, \<open>callBuiltin\<close> runs a native
  function other than the array methods modelled here.
\<close>

record host =
  display :: "state \<Rightarrow> RuntimeValue \<Rightarrow> string"
  callBuiltin :: "native \<Rightarrow> RuntimeValue list \<Rightarrow> nat \<Rightarrow> state \<Rightarrow> (RuntimeValue \<times> state) outcome"

type_synonym evaluator = "node \<Rightarrow> nat \<Rightarrow> state \<Rightarrow> (RuntimeValue \<times> state) outcome"

fun isNumericValue :: "RuntimeValue \<Rightarrow> bool" where
  "isNumericValue (NumericValue x) = True"
| "isNumericValue v = False"

fun isStringValue :: "RuntimeValue \<Rightarrow> bool" where
  "isStringValue (StringValue x) = True"
| "isStringValue v = False"

text \<open>Go's conversion \<open>int(x)\<close> of a float truncates toward zero; \<open>%\<close> on integers takes the
  sign of the dividend and panics when the divisor is zero.\<close>

definition goInt :: "real \<Rightarrow> int" where
  "goInt x = (if 0 \<le> x then \<lfloor>x\<rfloor> else \<lceil>x\<rceil>)"

definition goRem :: "int \<Rightarrow> int \<Rightarrow> int" where
  "goRem a b = sgn a * (\<bar>a\<bar> mod \<bar>b\<bar>)"

fun isTruthy :: "RuntimeValue \<Rightarrow> bool" where
  "isTruthy (BooleanValue b) = b"
| "isTruthy (NumericValue n) = (n \<noteq> 0)"
| "isTruthy (StringValue s) = (s \<noteq> [])"
| "isTruthy NullValue = False"
| "isTruthy v = True"

definition evaluateStringMultiplication :: "string \<Rightarrow> real \<Rightarrow> RuntimeValue outcome" where
  "evaluateStringMultiplication l r =
     (if goInt r < 0 then Panic NegativeRepeatCount
      else Ok (StringValue (concat (replicate (nat (goInt r)) l))))"

definition evaluateStringBinaryExpression ::
  "host \<Rightarrow> string \<Rightarrow> RuntimeValue \<Rightarrow> RuntimeValue \<Rightarrow> state \<Rightarrow> RuntimeValue outcome" where
  "evaluateStringBinaryExpression h operator l r st =
     (if operator = ''+'' then Ok (StringValue (display h st l @ display h st r))
      else Exit (UnknownStringOperator operator))"

definition evaluateNumericBinaryExpression :: "string \<Rightarrow> real \<Rightarrow> real \<Rightarrow> RuntimeValue outcome" where
  "evaluateNumericBinaryExpression operator l r =
     (if operator = ''+'' then Ok (NumericValue (l + r))
      else if operator = ''-'' then Ok (NumericValue (l - r))
      else if operator = ''*'' then Ok (NumericValue (l * r))
      else if operator = ''/'' then
        (if r = 0 then Exit DivideByZero else Ok (NumericValue (l / r)))
      else if operator = ''%'' then
        (if goInt r = 0 then Panic IntegerDivideByZero
         else Ok (NumericValue (of_int (goRem (goInt l) (goInt r)))))
      else Exit (UnknownOperator operator))"

definition isComparisonOperator :: "string \<Rightarrow> bool" where
  "isComparisonOperator operator =
     (operator \<in> {''=='', ''!='', ''>'', ''>='', ''<'', ''<='', ''&&'', ''||''})"

definition evaluateLogicalExpression :: "string \<Rightarrow> RuntimeValue \<Rightarrow> RuntimeValue \<Rightarrow> RuntimeValue outcome" where
  "evaluateLogicalExpression operator l r =
     (let leftBool = isTruthy l; rightBool = isTruthy r in
      if operator = ''&&'' then Ok (BooleanValue (leftBool \<and> rightBool))
      else if operator = ''||'' then Ok (BooleanValue (leftBool \<or> rightBool))
      else Exit (UnknownLogicalOperator operator))"

definition evaluateStringComparison :: "string \<Rightarrow> string \<Rightarrow> string \<Rightarrow> RuntimeValue outcome" where
  "evaluateStringComparison operator l r =
     (if operator = ''=='' then Ok (BooleanValue (l = r))
      else if operator = ''!='' then Ok (BooleanValue (l \<noteq> r))
      else if operator = ''>'' then Ok (BooleanValue (l > r))
      else if operator = ''>='' then Ok (BooleanValue (l \<ge> r))
      else if operator = ''<'' then Ok (BooleanValue (l < r))
      else if operator = ''<='' then Ok (BooleanValue (l \<le> r))
      else Exit (UnknownComparisonOperator operator))"

definition evaluateNumericComparison :: "string \<Rightarrow> real \<Rightarrow> real \<Rightarrow> RuntimeValue outcome" where
  "evaluateNumericComparison operator l r =
     (if operator = ''=='' then Ok (BooleanValue (l = r))
      else if operator = ''!='' then Ok (BooleanValue (l \<noteq> r))
      else if operator = ''>'' then Ok (BooleanValue (l > r))
      else if operator = ''>='' then Ok (BooleanValue (l \<ge> r))
      else if operator = ''<'' then Ok (BooleanValue (l < r))
      else if operator = ''<='' then Ok (BooleanValue (l \<le> r))
      else Exit (UnknownComparisonOperator operator))"

definition evaluateBooleanComparison :: "string \<Rightarrow> bool \<Rightarrow> bool \<Rightarrow> RuntimeValue outcome" where
  "evaluateBooleanComparison operator l r =
     (if operator = ''=='' then Ok (BooleanValue (l = r))
      else if operator = ''!='' then Ok (BooleanValue (l \<noteq> r))
      else if operator = ''>'' then Ok (BooleanValue (l \<and> \<not> r))
      else if operator = ''>='' then Ok (BooleanValue (l \<or> \<not> r))
      else if operator = ''<'' then Ok (BooleanValue (\<not> l \<and> r))
      else if operator = ''<='' then Ok (BooleanValue (\<not> l \<or> r))
      else if operator = ''&&'' then Ok (BooleanValue (l \<and> r))
      else if operator = ''||'' then Ok (BooleanValue (l \<or> r))
      else Exit (UnknownComparisonOperator operator))"

definition evaluateNullComparison :: "string \<Rightarrow> RuntimeValue outcome" where
  "evaluateNullComparison operator =
     (if operator = ''=='' then Ok (BooleanValue True)
      else if operator = ''!='' then Ok (BooleanValue False)
      else Exit (NullOperator operator))"

fun isBooleanValue :: "RuntimeValue \<Rightarrow> bool" where
  "isBooleanValue (BooleanValue x) = True"
| "isBooleanValue v = False"

text \<open>A type assertion \<open>v.(*T)\<close> panics when the value is of another type.\<close>

definition asNumeric :: "RuntimeValue \<Rightarrow> real outcome" where
  "asNumeric v = (case v of NumericValue x \<Rightarrow> Ok x | _ \<Rightarrow> Panic TypeAssertion)"

definition asString :: "RuntimeValue \<Rightarrow> string outcome" where
  "asString v = (case v of StringValue x \<Rightarrow> Ok x | _ \<Rightarrow> Panic TypeAssertion)"

definition asBoolean :: "RuntimeValue \<Rightarrow> bool outcome" where
  "asBoolean v = (case v of BooleanValue x \<Rightarrow> Ok x | _ \<Rightarrow> Panic TypeAssertion)"

definition evaluateComparisonExpression :: "string \<Rightarrow> RuntimeValue \<Rightarrow> RuntimeValue \<Rightarrow> RuntimeValue outcome" where
  "evaluateComparisonExpression operator l r =
     (if operator = ''&&'' \<or> operator = ''||'' then evaluateLogicalExpression operator l r
      else if isStringValue l \<and> isStringValue r then
        bind (asString l) (\<lambda>a. bind (asString r) (\<lambda>b. evaluateStringComparison operator a b))
      else if isNumericValue l \<and> isNumericValue r then
        bind (asNumeric l) (\<lambda>a. bind (asNumeric r) (\<lambda>b. evaluateNumericComparison operator a b))
      else if isBooleanValue l \<and> isBooleanValue r then
        bind (asBoolean l) (\<lambda>a. bind (asBoolean r) (\<lambda>b. evaluateBooleanComparison operator a b))
      else if l = NullValue \<and> r = NullValue then evaluateNullComparison operator
      else if operator = ''=='' then Ok (BooleanValue False)
      else if operator = ''!='' then Ok (BooleanValue True)
      else Exit (CannotCompare operator))"

text \<open>\<open>evaluateBinaryExpression\<close> evaluates both operands before it looks at the operator.\<close>

definition evaluateBinaryExpression ::
  "host \<Rightarrow> evaluator \<Rightarrow> node \<Rightarrow> string \<Rightarrow> node \<Rightarrow> nat \<Rightarrow> state \<Rightarrow> (RuntimeValue \<times> state) outcome" where
  "evaluateBinaryExpression h ev left operator right s st =
     bind (ev left s st) (\<lambda>(l, st1).
     bind (ev right s st1) (\<lambda>(r, st2).
       bind
         (if isComparisonOperator operator then evaluateComparisonExpression operator l r
          else if isStringValue l \<and> operator = ''*'' \<and> isNumericValue r then
            bind (asString l) (\<lambda>a. bind (asNumeric r) (\<lambda>b. evaluateStringMultiplication a b))
          else if isStringValue l \<or> isStringValue r then
            evaluateStringBinaryExpression h operator l r st2
          else if \<not> isNumericValue l \<or> \<not> isNumericValue r then Exit InvalidOperandTypes
          else bind (asNumeric l) (\<lambda>a. bind (asNumeric r) (\<lambda>b. evaluateNumericBinaryExpression operator a b)))
         (\<lambda>v. Ok (v, st2))))"

subsection \<open>Array methods (package builtins)\<close>

definition ArrayPushMethod :: "nat \<Rightarrow> RuntimeValue list \<Rightarrow> state \<Rightarrow> (RuntimeValue \<times> state) outcome" where
  "ArrayPushMethod a args st =
     (if length args \<noteq> 1 then Exit (PushArity (length args))
      else case arrays st a of
          None \<Rightarrow> Panic NilDereference
        | Some elements \<Rightarrow> Ok (ArrayValue a, st\<lparr>arrays := (arrays st)(a \<mapsto> elements @ [args ! 0])\<rparr>))"

definition ArrayPopMethod :: "nat \<Rightarrow> RuntimeValue list \<Rightarrow> state \<Rightarrow> (RuntimeValue \<times> state) outcome" where
  "ArrayPopMethod a args st =
     (case arrays st a of
        None \<Rightarrow> Panic NilDereference
      | Some elements \<Rightarrow>
          if length elements = 0 then Exit PopFromEmptyArray
          else
            let lastIndex = length elements - 1;
                lastElement = elements ! lastIndex
            in Ok (lastElement, st\<lparr>arrays := (arrays st)(a \<mapsto> take lastIndex elements)\<rparr>))"

definition ArrayLenMethod :: "nat \<Rightarrow> RuntimeValue list \<Rightarrow> state \<Rightarrow> (RuntimeValue \<times> state) outcome" where
  "ArrayLenMethod a args st =
     (case arrays st a of
        None \<Rightarrow> Panic NilDereference
      | Some elements \<Rightarrow> Ok (NumericValue (real (length elements)), st))"

definition ArrayRemoveMethod :: "nat \<Rightarrow> RuntimeValue list \<Rightarrow> state \<Rightarrow> (RuntimeValue \<times> state) outcome" where
  "ArrayRemoveMethod a args st =
     (if length args \<noteq> 1 then Exit (RemoveArity (length args))
      else if \<not> isNumericValue (args ! 0) then Exit RemoveIndexNotNumeric
      else bind (asNumeric (args ! 0)) (\<lambda>x.
        let index = goInt x - 1 in
        case arrays st a of
          None \<Rightarrow> Panic NilDereference
        | Some elements \<Rightarrow>
            if index < 0 \<or> index \<ge> int (length elements) then Exit (MethodIndexOutOfBounds (index + 1))
            else Ok (ArrayValue a,
                     st\<lparr>arrays := (arrays st)(a \<mapsto> take (nat index) elements @ drop (nat index + 1) elements)\<rparr>)))"

definition ArrayInsertMethod :: "nat \<Rightarrow> RuntimeValue list \<Rightarrow> state \<Rightarrow> (RuntimeValue \<times> state) outcome" where
  "ArrayInsertMethod a args st =
     (if length args \<noteq> 2 then Exit (InsertArity (length args))
      else if \<not> isNumericValue (args ! 0) then Exit InsertIndexNotNumeric
      else bind (asNumeric (args ! 0)) (\<lambda>x.
        let index = goInt x - 1 in
        case arrays st a of
          None \<Rightarrow> Panic NilDereference
        | Some elements \<Rightarrow>
            if index < 0 \<or> index > int (length elements) then Exit (MethodIndexOutOfBounds (index + 1))
            else Ok (ArrayValue a,
                     st\<lparr>arrays := (arrays st)(a \<mapsto> take (nat index) elements @ [args ! 1] @ drop (nat index) elements)\<rparr>)))"

definition ArrayReverseMethod :: "nat \<Rightarrow> RuntimeValue list \<Rightarrow> state \<Rightarrow> (RuntimeValue \<times> state) outcome" where
  "ArrayReverseMethod a args st =
     (case arrays st a of
        None \<Rightarrow> Panic NilDereference
      | Some elements \<Rightarrow> Ok (ArrayValue a, st\<lparr>arrays := (arrays st)(a \<mapsto> rev elements)\<rparr>))"

definition GetArrayMethod :: "nat \<Rightarrow> string \<Rightarrow> RuntimeValue outcome" where
  "GetArrayMethod a methodName =
     (if methodName = ''push'' then Ok (NativeFunctionValue (ArrayPush a))
      else if methodName = ''pop'' then Ok (NativeFunctionValue (ArrayPop a))
      else if methodName = ''len'' then Ok (NativeFunctionValue (ArrayLen a))
      else if methodName = ''remove'' then Ok (NativeFunctionValue (ArrayRemove a))
      else if methodName = ''insert'' then Ok (NativeFunctionValue (ArrayInsert a))
      else if methodName = ''indexOf'' then Ok (NativeFunctionValue (ArrayIndexOf a))
      else if methodName = ''contains'' then Ok (NativeFunctionValue (ArrayContains a))
      else if methodName = ''join'' then Ok (NativeFunctionValue (ArrayJoin a))
      else if methodName = ''reverse'' then Ok (NativeFunctionValue (ArrayReverse a))
      else Exit (UnknownArrayMethod methodName))"

definition GetStringMethod :: "string \<Rightarrow> string \<Rightarrow> RuntimeValue outcome" where
  "GetStringMethod str methodName =
     (if methodName \<in> {''len'', ''upper'', ''lower'', ''trim'', ''contains'', ''split'', ''replace'', ''indexOf''}
      then Ok (NativeFunctionValue (StringMethod methodName str))
      else Exit (UnknownStringMethod methodName))"

text \<open>Calling a native function value runs the closure it stands for.\<close>

definition callNative ::
  "host \<Rightarrow> native \<Rightarrow> RuntimeValue list \<Rightarrow> nat \<Rightarrow> state \<Rightarrow> (RuntimeValue \<times> state) outcome" where
  "callNative h f args s st =
     (case f of
        ArrayPush a \<Rightarrow> ArrayPushMethod a args st
      | ArrayPop a \<Rightarrow> ArrayPopMethod a args st
      | ArrayLen a \<Rightarrow> ArrayLenMethod a args st
      | ArrayRemove a \<Rightarrow> ArrayRemoveMethod a args st
      | ArrayInsert a \<Rightarrow> ArrayInsertMethod a args st
      | ArrayReverse a \<Rightarrow> ArrayReverseMethod a args st
      | _ \<Rightarrow> callBuiltin h f args s st)"

subsection \<open>Evaluation of the syntax tree (package interpreter)\<close>

text \<open>
  \<open>Evaluate\<close> and the functions it dispatches to call each other.  Each function below
  takes the evaluator it calls back as its argument \<open>ev\<close>; \<open>Evaluate\<close> closes the
  recursion at the end, counting the depth of the calls and the iterations of a loop, so
  that an evaluation that does not end has the outcome \<open>Unfinished\<close> at every depth.
  The root \<open>Program\<close> node has its own function \<open>evaluateProgram\<close>.
\<close>

primrec evalList :: "evaluator \<Rightarrow> node list \<Rightarrow> nat \<Rightarrow> state \<Rightarrow> (RuntimeValue list \<times> state) outcome" where
  "evalList ev [] s st = Ok ([], st)"
| "evalList ev (e # es) s st =
     bind (ev e s st) (\<lambda>(v, st1).
     bind (evalList ev es s st1) (\<lambda>(vs, st2). Ok (v # vs, st2)))"

text \<open>A block of statements: each is evaluated, the value of the last one is kept.\<close>

primrec execBlock :: "evaluator \<Rightarrow> node list \<Rightarrow> nat \<Rightarrow> RuntimeValue \<Rightarrow> state \<Rightarrow> (RuntimeValue \<times> state) outcome" where
  "execBlock ev [] s result st = Ok (result, st)"
| "execBlock ev (statement # rest) s result st =
     bind (ev statement s st) (\<lambda>(r, st1). execBlock ev rest s r st1)"

text \<open>\<open>evaluateProgram\<close> starts from Go's \<open>nil\<close>, which is what an empty program returns.\<close>

definition evaluateProgram :: "evaluator \<Rightarrow> node list \<Rightarrow> nat \<Rightarrow> state \<Rightarrow> (RuntimeValue option \<times> state) outcome" where
  "evaluateProgram ev statements s st =
     (case statements of
        [] \<Rightarrow> Ok (None, st)
      | first # rest \<Rightarrow>
          bind (ev first s st) (\<lambda>(r, st1).
          bind (execBlock ev rest s r st1) (\<lambda>(v, st2). Ok (Some v, st2))))"

definition evaluateIdentifier :: "string \<Rightarrow> nat \<Rightarrow> state \<Rightarrow> (RuntimeValue \<times> state) outcome" where
  "evaluateIdentifier name s st = bind (Get s name st) (\<lambda>v. Ok (v, st))"

definition evaluateVariableDeclaration ::
  "evaluator \<Rightarrow> string \<Rightarrow> node option \<Rightarrow> bool \<Rightarrow> nat \<Rightarrow> state \<Rightarrow> (RuntimeValue \<times> state) outcome" where
  "evaluateVariableDeclaration ev identifier val isConstant s st =
     bind (case val of None \<Rightarrow> Ok (NullValue, st) | Some e \<Rightarrow> ev e s st) (\<lambda>(v, st1).
     bind (Declare s identifier v isConstant st1) (\<lambda>(d, st2).
       Ok (NodeVariableDeclaration identifier v, st2)))"

primrec evalProperties ::
  "evaluator \<Rightarrow> (string \<times> node) list \<Rightarrow> nat \<Rightarrow> (string \<rightharpoonup> RuntimeValue) \<Rightarrow> state
     \<Rightarrow> ((string \<rightharpoonup> RuntimeValue) \<times> state) outcome" where
  "evalProperties ev [] s properties st = Ok (properties, st)"
| "evalProperties ev (property # rest) s properties st =
     bind (ev (snd property) s st) (\<lambda>(v, st1).
       evalProperties ev rest s (properties(fst property \<mapsto> v)) st1)"

definition evaluateObject :: "evaluator \<Rightarrow> (string \<times> node) list \<Rightarrow> nat \<Rightarrow> state \<Rightarrow> (RuntimeValue \<times> state) outcome" where
  "evaluateObject ev props s st =
     bind (evalProperties ev props s Map.empty st) (\<lambda>(properties, st1).
       Ok (ObjectValue (nextObject st1),
           st1\<lparr>objects := (objects st1)(nextObject st1 \<mapsto> properties), nextObject := Suc (nextObject st1)\<rparr>))"

definition evaluateMemberAccess :: "evaluator \<Rightarrow> node \<Rightarrow> string \<Rightarrow> nat \<Rightarrow> state \<Rightarrow> (RuntimeValue \<times> state) outcome" where
  "evaluateMemberAccess ev object property s st =
     bind (ev object s st) (\<lambda>(obj, st1).
       case obj of
         ArrayValue a \<Rightarrow> bind (GetArrayMethod a property) (\<lambda>m. Ok (m, st1))
       | StringValue str \<Rightarrow> bind (GetStringMethod str property) (\<lambda>m. Ok (m, st1))
       | ObjectValue p \<Rightarrow>
           (case objects st1 p of
              None \<Rightarrow> Panic NilDereference
            | Some properties \<Rightarrow>
                (case properties property of
                   Some v \<Rightarrow> Ok (v, st1)
                 | None \<Rightarrow> Exit (PropertyNotFound property)))
       | _ \<Rightarrow> Exit (PropertyOnNonObject property))"

definition evaluateMemberAccessAssignment ::
  "evaluator \<Rightarrow> node \<Rightarrow> string \<Rightarrow> node \<Rightarrow> nat \<Rightarrow> state \<Rightarrow> (RuntimeValue \<times> state) outcome" where
  "evaluateMemberAccessAssignment ev object property val s st =
     bind (ev object s st) (\<lambda>(obj, st1).
       case obj of
         ObjectValue p \<Rightarrow>
           bind (ev val s st1) (\<lambda>(assignedValue, st2).
             case objects st2 p of
               None \<Rightarrow> Panic NilDereference
             | Some properties \<Rightarrow>
                 Ok (assignedValue, st2\<lparr>objects := (objects st2)(p \<mapsto> properties(property \<mapsto> assignedValue))\<rparr>))
       | _ \<Rightarrow> Exit (AssignPropertyOnNonObject property))"

text \<open>
  The bounds of an indexed assignment are checked before the right-hand side is
  evaluated, the write happens after it: an index that the right-hand side has made
  invalid is Go's index panic.
\<close>

definition evaluateArrayIndexAssignment ::
  "evaluator \<Rightarrow> node \<Rightarrow> node \<Rightarrow> node \<Rightarrow> nat \<Rightarrow> state \<Rightarrow> (RuntimeValue \<times> state) outcome" where
  "evaluateArrayIndexAssignment ev arrayExpression indexExpression val s st =
     bind (ev arrayExpression s st) (\<lambda>(arrayValue, st1).
       case arrayValue of
         ArrayValue a \<Rightarrow>
           bind (ev indexExpression s st1) (\<lambda>(indexValue, st2).
             if \<not> isNumericValue indexValue then Exit ArrayIndexMustBeNumeric
             else bind (asNumeric indexValue) (\<lambda>x.
               let index = goInt x - 1 in
               case arrays st2 a of
                 None \<Rightarrow> Panic NilDereference
               | Some elements \<Rightarrow>
                   if index < 0 \<or> index \<ge> int (length elements)
                   then Exit (ArrayIndexOutOfBounds (index + 1) (length elements))
                   else bind (ev val s st2) (\<lambda>(assignedValue, st3).
                     case arrays st3 a of
                       None \<Rightarrow> Panic NilDereference
                     | Some elements' \<Rightarrow>
                         if nat index < length elements'
                         then Ok (assignedValue, st3\<lparr>arrays := (arrays st3)(a \<mapsto> elements'[nat index := assignedValue])\<rparr>)
                         else Panic IndexOutOfRange)))
       | _ \<Rightarrow> Exit CannotIndexNonArray)"

definition evaluateArray :: "evaluator \<Rightarrow> node list \<Rightarrow> nat \<Rightarrow> state \<Rightarrow> (RuntimeValue \<times> state) outcome" where
  "evaluateArray ev elems s st =
     bind (evalList ev elems s st) (\<lambda>(elements, st1).
       Ok (ArrayValue (nextArray st1),
           st1\<lparr>arrays := (arrays st1)(nextArray st1 \<mapsto> elements), nextArray := Suc (nextArray st1)\<rparr>))"

text \<open>
  \<open>string(b)\<close> of a byte \<open>b\<close> is the UTF-8 encoding of the code point \<open>b\<close>: one byte below
  \<open>0x80\<close>, two bytes from there on.
\<close>

definition stringOfByte :: "char \<Rightarrow> string" where
  "stringOfByte c =
     (if (of_char c :: nat) < 128 then [c]
      else [char_of (192 + (of_char c :: nat) div 64), char_of (128 + (of_char c :: nat) mod 64)])"

definition evaluateArrayIndex :: "evaluator \<Rightarrow> node \<Rightarrow> node \<Rightarrow> nat \<Rightarrow> state \<Rightarrow> (RuntimeValue \<times> state) outcome" where
  "evaluateArrayIndex ev arrayExpression indexExpression s st =
     bind (ev arrayExpression s st) (\<lambda>(val, st1).
     bind (ev indexExpression s st1) (\<lambda>(indexValue, st2).
       if \<not> isNumericValue indexValue then Exit IndexMustBeNumeric
       else bind (asNumeric indexValue) (\<lambda>x.
         let index = goInt x - 1 in
         case val of
           StringValue str \<Rightarrow>
             if index < 0 \<or> index \<ge> int (length str)
             then Exit (StringIndexOutOfBounds (index + 1) (length str))
             else Ok (StringValue (stringOfByte (str ! nat index)), st2)
         | ArrayValue a \<Rightarrow>
             (case arrays st2 a of
                None \<Rightarrow> Panic NilDereference
              | Some elements \<Rightarrow>
                  if index < 0 \<or> index \<ge> int (length elements)
                  then Exit (ArrayIndexOutOfBounds (index + 1) (length elements))
                  else Ok (elements ! nat index, st2))
         | _ \<Rightarrow> Exit CannotIndexType)))"

definition evaluateVariableAssignment ::
  "evaluator \<Rightarrow> node \<Rightarrow> node \<Rightarrow> nat \<Rightarrow> state \<Rightarrow> (RuntimeValue \<times> state) outcome" where
  "evaluateVariableAssignment ev target val s st =
     (case target of
        Identifier name \<Rightarrow>
          bind (ev val s st) (\<lambda>(v, st1). bind (Assign s name v st1) (\<lambda>(a, st2). Ok (v, st2)))
      | MemberAccess object property \<Rightarrow> evaluateMemberAccessAssignment ev object property val s st
      | ArrayIndex arrayExpression indexExpression \<Rightarrow>
          evaluateArrayIndexAssignment ev arrayExpression indexExpression val s st
      | _ \<Rightarrow> Exit InvalidAssignmentTarget)"

subsubsection \<open>Functions and calls\<close>

definition evaluateFunctionDeclaration ::
  "string \<Rightarrow> string list \<Rightarrow> node list \<Rightarrow> nat \<Rightarrow> state \<Rightarrow> (RuntimeValue \<times> state) outcome" where
  "evaluateFunctionDeclaration identifier parameters body s st =
     bind (Declare s identifier (FunctionValue identifier parameters body s) False st) (\<lambda>(f, st1). Ok (f, st1))"

fun declareParameters :: "nat \<Rightarrow> string list \<Rightarrow> RuntimeValue list \<Rightarrow> state \<Rightarrow> state outcome" where
  "declareParameters funScope [] args st = Ok st"
| "declareParameters funScope (paramName # rest) [] st = Panic IndexOutOfRange"
| "declareParameters funScope (paramName # rest) (arg # args) st =
     bind (Declare funScope paramName arg False st) (\<lambda>(d, st1). declareParameters funScope rest args st1)"

primrec execFunctionBody ::
  "evaluator \<Rightarrow> node list \<Rightarrow> nat \<Rightarrow> RuntimeValue \<Rightarrow> state \<Rightarrow> (RuntimeValue \<times> state) outcome" where
  "execFunctionBody ev [] funScope result st = Ok (result, st)"
| "execFunctionBody ev (statement # rest) funScope result st =
     bind (ev statement funScope st) (\<lambda>(r, st1).
       case r of
         ReturnValue v \<Rightarrow> Ok (v, st1)
       | _ \<Rightarrow> execFunctionBody ev rest funScope r st1)"

definition evaluateCallExpression ::
  "host \<Rightarrow> evaluator \<Rightarrow> node \<Rightarrow> node list \<Rightarrow> nat \<Rightarrow> state \<Rightarrow> (RuntimeValue \<times> state) outcome" where
  "evaluateCallExpression h ev callee args s st =
     bind (ev callee s st) (\<lambda>(calleeValue, st0).
       case calleeValue of
         NativeFunctionValue nativeFunc \<Rightarrow>
           bind (evalList ev args s st0) (\<lambda>(argValues, st1). callNative h nativeFunc argValues s st1)
       | FunctionValue identifier parameters body captured \<Rightarrow>
           if length args \<noteq> length parameters
           then Exit (ArityMismatch identifier (length parameters) (length args))
           else
             bind (evalList ev args s st0) (\<lambda>(argValues, st1).
               let (funScope, st2) = NewScope (Some captured) st1 in
               bind (declareParameters funScope parameters argValues st2) (\<lambda>st3.
                 execFunctionBody ev body funScope NullValue st3))
       | _ \<Rightarrow> Exit CannotCallNonFunction)"

subsubsection \<open>Conditionals\<close>

primrec evalElseIfs ::
  "evaluator \<Rightarrow> (node \<times> node list) list \<Rightarrow> node list \<Rightarrow> nat \<Rightarrow> state \<Rightarrow> (RuntimeValue \<times> state) outcome" where
  "evalElseIfs ev [] elseBody s st =
     (if length elseBody > 0 then execBlock ev elseBody s NullValue st else Ok (NullValue, st))"
| "evalElseIfs ev (elseifClause # rest) elseBody s st =
     bind (ev (fst elseifClause) s st) (\<lambda>(elseifValue, st1).
       if isTruthy elseifValue then execBlock ev (snd elseifClause) s NullValue st1
       else evalElseIfs ev rest elseBody s st1)"

definition evaluateIfStatement ::
  "evaluator \<Rightarrow> node \<Rightarrow> node list \<Rightarrow> (node \<times> node list) list \<Rightarrow> node list \<Rightarrow> nat \<Rightarrow> state
     \<Rightarrow> (RuntimeValue \<times> state) outcome" where
  "evaluateIfStatement ev condition body elseIfs elseBody s st =
     bind (ev condition s st) (\<lambda>(conditionValue, st1).
       if isTruthy conditionValue then execBlock ev body s NullValue st1
       else evalElseIfs ev elseIfs elseBody s st1)"

subsubsection \<open>Loops\<close>

text \<open>
  One pass over the body of a loop: the statements are evaluated in order and the pass
  stops at the first one whose value is the \<open>Break\<close> sentinel.  The flag tells whether
  that happened.  No loop form looks for a \<open>Return\<close> sentinel.
\<close>

primrec execLoopBody ::
  "evaluator \<Rightarrow> node list \<Rightarrow> nat \<Rightarrow> RuntimeValue \<Rightarrow> state \<Rightarrow> (bool \<times> RuntimeValue \<times> state) outcome" where
  "execLoopBody ev [] s result st = Ok (False, result, st)"
| "execLoopBody ev (statement # rest) s result st =
     bind (ev statement s st) (\<lambda>(r, st1).
       if r = BreakValue then Ok (True, r, st1)
       else execLoopBody ev rest s r st1)"

primrec infiniteLoop ::
  "evaluator \<Rightarrow> nat \<Rightarrow> node list \<Rightarrow> nat \<Rightarrow> RuntimeValue \<Rightarrow> state \<Rightarrow> (RuntimeValue \<times> state) outcome" where
  "infiniteLoop ev 0 body s result st = Unfinished"
| "infiniteLoop ev (Suc k) body s result st =
     bind (execLoopBody ev body s result st) (\<lambda>(broke, r, st1).
       if broke then Ok (NullValue, st1)
       else infiniteLoop ev k body s r st1)"

primrec conditionLoop ::
  "evaluator \<Rightarrow> nat \<Rightarrow> node \<Rightarrow> node list \<Rightarrow> nat \<Rightarrow> RuntimeValue \<Rightarrow> RuntimeValue \<Rightarrow> state
     \<Rightarrow> (RuntimeValue \<times> state) outcome" where
  "conditionLoop ev 0 condition body s conditionValue result st = Unfinished"
| "conditionLoop ev (Suc k) condition body s conditionValue result st =
     (if isTruthy conditionValue then
        bind (execLoopBody ev body s result st) (\<lambda>(broke, r, st1).
          if broke then Ok (NullValue, st1)
          else bind (ev condition s st1) (\<lambda>(c, st2).
            conditionLoop ev k condition body s c r st2))
      else Ok (result, st))"

primrec rangeLoop ::
  "evaluator \<Rightarrow> nat \<Rightarrow> node list \<Rightarrow> string \<Rightarrow> real \<Rightarrow> real \<Rightarrow> bool \<Rightarrow> nat \<Rightarrow> real \<Rightarrow> RuntimeValue \<Rightarrow> state
     \<Rightarrow> (RuntimeValue \<times> state) outcome" where
  "rangeLoop ev 0 body loopVar toValue increment goingForward s current result st = Unfinished"
| "rangeLoop ev (Suc k) body loopVar toValue increment goingForward s current result st =
     (if goingForward \<and> current > toValue then Ok (result, st)
      else if \<not> goingForward \<and> current < toValue then Ok (result, st)
      else
        bind (Assign s loopVar (NumericValue current) st) (\<lambda>(a, st1).
        bind (execLoopBody ev body s result st1) (\<lambda>(broke, r, st2).
          if broke then Ok (NullValue, st2)
          else rangeLoop ev k body loopVar toValue increment goingForward s (current + increment) r st2)))"

text \<open>An absent sub-tree is a nil node; evaluating it dereferences nil.\<close>

definition evalNode :: "evaluator \<Rightarrow> node option \<Rightarrow> nat \<Rightarrow> state \<Rightarrow> (RuntimeValue \<times> state) outcome" where
  "evalNode ev n s st = (case n of None \<Rightarrow> Panic NilDereference | Some e \<Rightarrow> ev e s st)"

definition evaluateRangeLoop ::
  "evaluator \<Rightarrow> nat \<Rightarrow> node list \<Rightarrow> string \<Rightarrow> node option \<Rightarrow> node option \<Rightarrow> node option \<Rightarrow> nat \<Rightarrow> state
     \<Rightarrow> (RuntimeValue \<times> state) outcome" where
  "evaluateRangeLoop ev k body loopVar from to incr s st =
     bind (evalNode ev from s st) (\<lambda>(fromValue, st1).
     bind (evalNode ev to s st1) (\<lambda>(toValue, st2).
       if \<not> isNumericValue fromValue \<or> \<not> isNumericValue toValue then Exit RangeLoopNotNumeric
       else
         bind (asNumeric fromValue) (\<lambda>fromNumeric.
         bind (asNumeric toValue) (\<lambda>toNumeric.
         bind (case incr of
                 None \<Rightarrow> Ok (1, st2)
               | Some e \<Rightarrow>
                   bind (ev e s st2) (\<lambda>(incValue, st3).
                     if \<not> isNumericValue incValue then Exit RangeIncrementNotNumeric
                     else bind (asNumeric incValue) (\<lambda>i. Ok (i, st3)))) (\<lambda>(increment, st3).
         bind (setVariable s loopVar (NumericValue fromNumeric) st3) (\<lambda>st4.
           let goingForward = (case incr of None \<Rightarrow> fromNumeric \<le> toNumeric | Some e \<Rightarrow> increment > 0)
           in rangeLoop ev k body loopVar toNumeric increment goingForward s fromNumeric NullValue st4))))))"

text \<open>
  The for-each loop ranges over the elements the array has when the loop starts.  (Go's
  \<open>range\<close> fixes the slice at that moment; writes that the body makes into the same
  backing array during the iteration are not part of this model.)
\<close>

primrec forEachLoop ::
  "evaluator \<Rightarrow> RuntimeValue list \<Rightarrow> node list \<Rightarrow> string \<Rightarrow> nat \<Rightarrow> RuntimeValue \<Rightarrow> state
     \<Rightarrow> (RuntimeValue \<times> state) outcome" where
  "forEachLoop ev [] body loopVar s result st = Ok (result, st)"
| "forEachLoop ev (element # rest) body loopVar s result st =
     bind (setVariable s loopVar element st) (\<lambda>st1.
     bind (execLoopBody ev body s result st1) (\<lambda>(broke, r, st2).
       if broke then Ok (NullValue, st2)
       else forEachLoop ev rest body loopVar s r st2))"

definition evaluateForEachLoop ::
  "evaluator \<Rightarrow> node list \<Rightarrow> string \<Rightarrow> node option \<Rightarrow> nat \<Rightarrow> state \<Rightarrow> (RuntimeValue \<times> state) outcome" where
  "evaluateForEachLoop ev body loopVar from s st =
     bind (evalNode ev from s st) (\<lambda>(iterableValue, st1).
       case iterableValue of
         ArrayValue a \<Rightarrow>
           (case arrays st1 a of
              None \<Rightarrow> Panic NilDereference
            | Some elements \<Rightarrow> forEachLoop ev elements body loopVar s NullValue st1)
       | _ \<Rightarrow> Exit ForEachRequiresArray)"

definition evaluateLoopStatement ::
  "evaluator \<Rightarrow> nat \<Rightarrow> node option \<Rightarrow> node list \<Rightarrow> string \<Rightarrow> node option \<Rightarrow> node option \<Rightarrow> node option \<Rightarrow> bool
     \<Rightarrow> nat \<Rightarrow> state \<Rightarrow> (RuntimeValue \<times> state) outcome" where
  "evaluateLoopStatement ev k condition body loopVar from to incr isForEach s st =
     (if isForEach then evaluateForEachLoop ev body loopVar from s st
      else if loopVar \<noteq> [] then evaluateRangeLoop ev k body loopVar from to incr s st
      else case condition of
          None \<Rightarrow> infiniteLoop ev k body s NullValue st
        | Some c \<Rightarrow>
            bind (ev c s st) (\<lambda>(conditionValue, st1).
              conditionLoop ev k c body s conditionValue NullValue st1))"

definition evaluateReturnStatement :: "evaluator \<Rightarrow> node option \<Rightarrow> nat \<Rightarrow> state \<Rightarrow> (RuntimeValue \<times> state) outcome" where
  "evaluateReturnStatement ev val s st =
     (case val of
        None \<Rightarrow> Ok (ReturnValue NullValue, st)
      | Some e \<Rightarrow> bind (ev e s st) (\<lambda>(v, st1). Ok (ReturnValue v, st1)))"

subsubsection \<open>The dispatch\<close>

text \<open>
  The switch of \<open>Evaluate\<close>.  An import statement that the resolver has left in place
  (inside a block) falls into the default case.  The case for a native function value
  handed in as a node cannot arise from a parsed program and has no constructor here.
\<close>

definition dispatch :: "host \<Rightarrow> nat \<Rightarrow> evaluator \<Rightarrow> evaluator" where
  "dispatch h k ev n s st =
     (case n of
        Numeric x \<Rightarrow> Ok (NumericValue x, st)
      | Boolean b \<Rightarrow> Ok (BooleanValue b, st)
      | Null \<Rightarrow> Ok (NullValue, st)
      | String str \<Rightarrow> Ok (StringValue str, st)
      | BinaryExpression left operator right \<Rightarrow> evaluateBinaryExpression h ev left operator right s st
      | Identifier name \<Rightarrow> evaluateIdentifier name s st
      | Object props \<Rightarrow> evaluateObject ev props s st
      | Array elems \<Rightarrow> evaluateArray ev elems s st
      | ArrayIndex arrayExpression indexExpression \<Rightarrow> evaluateArrayIndex ev arrayExpression indexExpression s st
      | MemberAccess object property \<Rightarrow> evaluateMemberAccess ev object property s st
      | CallExpression callee args \<Rightarrow> evaluateCallExpression h ev callee args s st
      | VariableDeclaration isConstant identifier val \<Rightarrow>
          evaluateVariableDeclaration ev identifier val isConstant s st
      | VariableAssignmentExpression target val \<Rightarrow> evaluateVariableAssignment ev target val s st
      | FunctionDeclaration identifier parameters body \<Rightarrow>
          evaluateFunctionDeclaration identifier parameters body s st
      | IfStatement condition body elseIfs elseBody \<Rightarrow>
          evaluateIfStatement ev condition body elseIfs elseBody s st
      | LoopStatement condition body loopVar from to incr isForEach \<Rightarrow>
          evaluateLoopStatement ev k condition body loopVar from to incr isForEach s st
      | BreakExpression \<Rightarrow> Ok (BreakValue, st)
      | ReturnStatement val \<Rightarrow> evaluateReturnStatement ev val s st
      | ImportStatement path \<Rightarrow> Exit UnknownNodeType)"

primrec Evaluate :: "host \<Rightarrow> nat \<Rightarrow> evaluator" where
  "Evaluate h 0 = (\<lambda>n s st. Unfinished)"
| "Evaluate h (Suc k) = dispatch h k (Evaluate h k)"

subsection \<open>Import resolution (package imports)\<close>

text \<open>
  The resolver reads files and calls the parser and the path functions of Go's library;
  they are the fields of \<open>files\<close>.  \<open>readFile\<close> is \<open>None\<close> for a file that cannot be
  read, \<open>produceAST\<close> is \<open>None\<close> when the parser ends the process on a syntax error, and
  \<open>absPath\<close> is \<open>None\<close> when \<open>filepath.Abs\<close> returns an error.
\<close>

record files =
  readFile :: "string \<Rightarrow> string option"
  produceAST :: "string \<Rightarrow> node list option"
  absPath :: "string \<Rightarrow> string option"
  joinPath :: "string \<Rightarrow> string \<Rightarrow> string"
  dirOf :: "string \<Rightarrow> string"
  isAbs :: "string \<Rightarrow> bool"

datatype import_error =
    ResolveFailed string
  | CircularImport string
  | ReadFailed
  | ImportFailed string import_error

datatype 'a importing = Imported 'a | Failed import_error | SyntaxExit | Pending

definition hasSuffix :: "string \<Rightarrow> string \<Rightarrow> bool" where
  "hasSuffix str suffix = (length suffix \<le> length str \<and> drop (length str - length suffix) str = suffix)"

definition resolveImportPath :: "files \<Rightarrow> string \<Rightarrow> string \<Rightarrow> string" where
  "resolveImportPath fs importPath baseDir =
     (let importPath' =
            (if \<not> hasSuffix importPath ''.gloob'' \<and> \<not> hasSuffix importPath ''.gb''
             then importPath @ ''.gloob'' else importPath)
      in if isAbs fs importPath' then importPath' else joinPath fs baseDir importPath')"

text \<open>
  \<open>visited\<close> is one Go map shared by the whole pass, so the functions return it with
  the statements.  \<open>processStatements\<close> is the loop of \<open>processStatementsWithImports\<close>; it
  is given the loader to call, and the recursion between the two is closed below.
\<close>

type_synonym imports_result = "(node list \<times> string set) importing"

primrec processStatements ::
  "files \<Rightarrow> (string \<Rightarrow> string set \<Rightarrow> imports_result) \<Rightarrow> node list \<Rightarrow> string \<Rightarrow> string set \<Rightarrow> imports_result" where
  "processStatements fs load [] baseDir visited = Imported ([], visited)"
| "processStatements fs load (stmt # rest) baseDir visited =
     (case stmt of
        ImportStatement path \<Rightarrow>
          (let importPath = resolveImportPath fs path baseDir in
           case absPath fs importPath of
             None \<Rightarrow> Failed (ResolveFailed importPath)
           | Some absolute \<Rightarrow>
               if absolute \<in> visited then Failed (CircularImport importPath)
               else
                 (case load importPath (insert absolute visited) of
                    Imported (importedStatements, visited1) \<Rightarrow>
                      (case processStatements fs load rest baseDir visited1 of
                         Imported (result, visited2) \<Rightarrow> Imported (importedStatements @ result, visited2)
                       | Failed err \<Rightarrow> Failed err
                       | SyntaxExit \<Rightarrow> SyntaxExit
                       | Pending \<Rightarrow> Pending)
                  | Failed err \<Rightarrow> Failed (ImportFailed path err)
                  | SyntaxExit \<Rightarrow> SyntaxExit
                  | Pending \<Rightarrow> Pending))
      | _ \<Rightarrow>
          (case processStatements fs load rest baseDir visited of
             Imported (result, visited2) \<Rightarrow> Imported (stmt # result, visited2)
           | Failed err \<Rightarrow> Failed err
           | SyntaxExit \<Rightarrow> SyntaxExit
           | Pending \<Rightarrow> Pending))"

definition loadAndParseFile ::
  "files \<Rightarrow> (node list \<Rightarrow> string \<Rightarrow> string set \<Rightarrow> imports_result) \<Rightarrow> string \<Rightarrow> string set \<Rightarrow> imports_result" where
  "loadAndParseFile fs process filePath visited =
     (case readFile fs filePath of
        None \<Rightarrow> Failed ReadFailed
      | Some sourceCode \<Rightarrow>
          (case produceAST fs sourceCode of
             None \<Rightarrow> SyntaxExit
           | Some statements \<Rightarrow> process statements (dirOf fs filePath) visited))"

primrec processStatementsWithImports :: "files \<Rightarrow> nat \<Rightarrow> node list \<Rightarrow> string \<Rightarrow> string set \<Rightarrow> imports_result" where
  "processStatementsWithImports fs 0 = (\<lambda>statements baseDir visited. Pending)"
| "processStatementsWithImports fs (Suc k) =
     processStatements fs (loadAndParseFile fs (processStatementsWithImports fs k))"

definition ProcessImports :: "files \<Rightarrow> nat \<Rightarrow> node list \<Rightarrow> string \<Rightarrow> node list importing" where
  "ProcessImports fs k program basePath =
     (let baseDir = (if dirOf fs basePath = [] then ''.'' else dirOf fs basePath) in
      case processStatementsWithImports fs k program baseDir {} of
        Imported (statements, visited) \<Rightarrow> Imported statements
      | Failed err \<Rightarrow> Failed err
      | SyntaxExit \<Rightarrow> SyntaxExit
      | Pending \<Rightarrow> Pending)"

subsection \<open>Notions used to state the properties\<close>

text \<open>
  \<open>reaches st name s d\<close>: walking up the parent pointers from scope \<open>s\<close>, through scopes
  that do not define \<open>name\<close>, arrives at scope \<open>d\<close>.
\<close>

inductive reaches :: "state \<Rightarrow> string \<Rightarrow> nat \<Rightarrow> nat \<Rightarrow> bool" where
  here: "reaches st name s s"
| up: "scopes st s = Some sc \<Longrightarrow> variables sc name = None \<Longrightarrow> parent sc = Some p \<Longrightarrow>
       reaches st name p d \<Longrightarrow> reaches st name s d"

text \<open>
  The properties of an object are a Go map.  A \<open>range\<close> over a Go map visits every key
  once, in an order that the language leaves open: \<open>rangesOver m ks\<close> says that \<open>ks\<close> is
  an order in which \<open>range\<close> may deliver the keys of \<open>m\<close>.  The only enumeration of an
  object's properties in the sources is the \<open>range\<close> in \<open>stringWithIndent\<close>, which prints
  the keys as they come.
\<close>

definition rangesOver :: "('k \<rightharpoonup> 'v) \<Rightarrow> 'k list \<Rightarrow> bool" where
  "rangesOver m ks = (distinct ks \<and> set ks = dom m)"




subsection \<open>A host and a state for worked examples\<close>

text \<open>A host without built-ins, and the state that holds an empty global scope at address 0.\<close>

definition bareHost :: host where
  "bareHost = \<lparr>display = (\<lambda>st v. []), callBuiltin = (\<lambda>f args s st. Exit CannotCallNonFunction)\<rparr>"

definition globalState :: state where
  "globalState =
     \<lparr>scopes = [0 \<mapsto> \<lparr>parent = None, variables = Map.empty, constants = {}\<rparr>], nextScope = 1,
      arrays = Map.empty, nextArray = 0, objects = Map.empty, nextObject = 0\<rparr>"

definition valueOf :: "('a \<times> state) outcome \<Rightarrow> 'a outcome" where
  "valueOf r = bind r (\<lambda>(v, st). Ok v)"

text \<open>A global scope with the constant \<open>pi\<close> and a variable, and a child scope of it.\<close>

definition twoScopes :: state where
  "twoScopes =
     \<lparr>scopes = [0 \<mapsto> \<lparr>parent = None, variables = [''pi'' \<mapsto> NumericValue 3, ''x'' \<mapsto> NumericValue 1], constants = {''pi''}\<rparr>,
                1 \<mapsto> \<lparr>parent = Some 0, variables = [''y'' \<mapsto> NumericValue 2], constants = {}\<rparr>],
      nextScope = 2, arrays = Map.empty, nextArray = 0, objects = Map.empty, nextObject = 0\<rparr>"

text \<open>A global scope that holds a variable \<open>x\<close>.\<close>

definition scopeWithX :: state where
  "scopeWithX =
     \<lparr>scopes = [0 \<mapsto> \<lparr>parent = None, variables = [''x'' \<mapsto> NumericValue 0], constants = {}\<rparr>], nextScope = 1,
      arrays = Map.empty, nextArray = 0, objects = Map.empty, nextObject = 0\<rparr>"

text \<open>
  Two programs whose function returns from inside a loop:
  \<^verbatim>\<open>fun f() { loop i from 1 to 3 { return i } }  f()\<close> and
  \<^verbatim>\<open>fun f() { loop { return 1 } }  f()\<close>.
\<close>

definition returnInRangeLoop :: "node list" where
  "returnInRangeLoop =
     [FunctionDeclaration ''f'' []
        [LoopStatement None [ReturnStatement (Some (Identifier ''i''))] ''i'' (Some (Numeric 1)) (Some (Numeric 3)) None False],
      CallExpression (Identifier ''f'') []]"

definition returnInInfiniteLoop :: "node list" where
  "returnInInfiniteLoop =
     [FunctionDeclaration ''f'' []
        [LoopStatement None [ReturnStatement (Some (Numeric 1))] [] None None None False],
      CallExpression (Identifier ''f'') []]"


text \<open>
  Three files in one directory: \<open>b\<close> and \<open>c\<close> both import \<open>d\<close>, which declares a
  variable.  No file imports itself, directly or through another file.
\<close>

definition diamond :: files where
  "diamond =
     \<lparr>readFile = (\<lambda>p. if p \<in> {''b.gloob'', ''c.gloob'', ''d.gloob''} then Some p else None),
      produceAST = (\<lambda>src.
         if src = ''b.gloob'' then Some [ImportStatement ''d'']
         else if src = ''c.gloob'' then Some [ImportStatement ''d'']
         else Some [VariableDeclaration False ''shared'' (Some (Numeric 1))]),
      absPath = Some,
      joinPath = (\<lambda>dir p. p),
      dirOf = (\<lambda>p. ''.''),
      isAbs = (\<lambda>p. False)\<rparr>"




section \<open>Properties\<close>

subsection \<open>Rules for evaluating concrete programs\<close>

lemma Resolve_here:
  "scopes st s = Some sc \<Longrightarrow> variables sc name = Some v \<Longrightarrow> Resolve st s name = Some (Ok s)"
  by (subst Resolve.simps) simp

lemma Resolve_up:
  "scopes st s = Some sc \<Longrightarrow> variables sc name = None \<Longrightarrow> parent sc = Some p \<Longrightarrow>
   Resolve st s name = Resolve st p name"
  by (subst Resolve.simps) simp

lemma Resolve_root:
  "scopes st s = Some sc \<Longrightarrow> variables sc name = None \<Longrightarrow> parent sc = None \<Longrightarrow>
   Resolve st s name = Some (Exit (VariableNotFound name))"
  by (subst Resolve.simps) simp

lemmas Resolve_eval = Resolve_here Resolve_up Resolve_root

lemmas scope_eval = Declare_def Assign_def Get_def resolved_def setVariable_def NewScope_def bind_def

lemmas node_eval =
  dispatch_def evaluateProgram_def evaluateIdentifier_def evaluateVariableDeclaration_def
  evaluateVariableAssignment_def evaluateFunctionDeclaration_def evaluateCallExpression_def
  evaluateIfStatement_def evaluateLoopStatement_def evaluateRangeLoop_def evaluateForEachLoop_def
  evaluateReturnStatement_def evaluateBinaryExpression_def evaluateComparisonExpression_def
  evaluateNumericComparison_def evaluateNumericBinaryExpression_def evaluateLogicalExpression_def
  isComparisonOperator_def evalNode_def asNumeric_def asString_def asBoolean_def valueOf_def


subsection \<open>Scopes\<close>
lemma Resolve_found:
  "reaches st name s d \<Longrightarrow> scopes st d = Some sd \<Longrightarrow> variables sd name = Some old \<Longrightarrow>
   Resolve st s name = Some (Ok d)"
proof (induction rule: reaches.induct)
  case (here st name s)
  then show ?case by (subst Resolve.simps) simp
next
  case (up st s sc name p d)
  then show ?case by (subst Resolve.simps) simp
qed

lemma Resolve_missing:
  "reaches st name s d \<Longrightarrow> scopes st d = Some sd \<Longrightarrow> variables sd name = None \<Longrightarrow> parent sd = None \<Longrightarrow>
   Resolve st s name = Some (Exit (VariableNotFound name))"
proof (induction rule: reaches.induct)
  case (here st name s)
  then show ?case by (subst Resolve.simps) simp
next
  case (up st s sc name p d)
  then show ?case by (subst Resolve.simps) simp
qed

text \<open>
  Claim C7.  \<open>Declare\<close> fails with the re-declaration error whenever the name exists in
  the scope it is called on, whatever the constness of the old or the new binding.
  \<open>Assign\<close> walks the parent chain to the first scope that defines the name: it fails
  when the chain ends without one, it fails when the name is a constant of that scope,
  and otherwise it replaces the binding in that scope and changes nothing else.
\<close>

theorem scope_discipline:
  "(scopes st s = Some sc \<longrightarrow> variables sc name = Some old \<longrightarrow>
      Declare s name val isConstant st = Exit (VariableAlreadyDeclared name))
   \<and> (reaches st name s d \<longrightarrow> scopes st d = Some sd \<longrightarrow>
        (variables sd name = None \<longrightarrow> parent sd = None \<longrightarrow>
           Assign s name val st = Exit (VariableNotFound name))
      \<and> (variables sd name = Some old \<longrightarrow> name \<in> constants sd \<longrightarrow>
           Assign s name val st = Exit (ConstantAssignment name))
      \<and> (variables sd name = Some old \<longrightarrow> name \<notin> constants sd \<longrightarrow>
           Assign s name val st =
             Ok (val, st\<lparr>scopes := (scopes st)(d \<mapsto> sd\<lparr>variables := (variables sd)(name \<mapsto> val)\<rparr>)\<rparr>)))"
  by (auto simp: Declare_def Assign_def resolved_def bind_def Resolve_found Resolve_missing)

theorem scope_discipline_witness:
  "Declare 1 ''y'' NullValue True twoScopes = Exit (VariableAlreadyDeclared ''y'')
   \<and> Assign 1 ''z'' NullValue twoScopes = Exit (VariableNotFound ''z'')
   \<and> Assign 1 ''pi'' NullValue twoScopes = Exit (ConstantAssignment ''pi'')
   \<and> valueOf (bind (Assign 1 ''x'' (NumericValue 7) twoScopes) (\<lambda>(v, st). bind (Get 0 ''x'' st) (\<lambda>x. Ok (x, st))))
       = Ok (NumericValue 7)"
proof -
  let ?g = "\<lparr>parent = None, variables = [''pi'' \<mapsto> NumericValue 3, ''x'' \<mapsto> NumericValue 1], constants = {''pi''}\<rparr>"
  let ?c = "\<lparr>parent = Some 0, variables = [''y'' \<mapsto> NumericValue 2], constants = {}\<rparr>"
  have g: "scopes twoScopes 0 = Some ?g" and c: "scopes twoScopes 1 = Some ?c"
    by (simp_all add: twoScopes_def)
  have r: "reaches twoScopes n 1 0" if "n \<noteq> ''y''" for n
    by (rule reaches.up[OF c _ _ reaches.here]) (use that in simp_all)
  have 1: "Declare 1 ''y'' NullValue True twoScopes = Exit (VariableAlreadyDeclared ''y'')"
    using scope_discipline[of twoScopes 1 ?c "''y''" "NumericValue 2" NullValue True] c by simp
  have 2: "Assign 1 ''z'' NullValue twoScopes = Exit (VariableNotFound ''z'')"
    using scope_discipline[of twoScopes 1 ?c "''z''" NullValue NullValue True 0 ?g] g r[of "''z''"] by simp
  have 3: "Assign 1 ''pi'' NullValue twoScopes = Exit (ConstantAssignment ''pi'')"
    using scope_discipline[of twoScopes 1 ?c "''pi''" "NumericValue 3" NullValue True 0 ?g] g r[of "''pi''"] by simp
  have 4: "Assign 1 ''x'' (NumericValue 7) twoScopes =
      Ok (NumericValue 7, twoScopes\<lparr>scopes := (scopes twoScopes)(0 \<mapsto> ?g\<lparr>variables := (variables ?g)(''x'' \<mapsto> NumericValue 7)\<rparr>)\<rparr>)"
    using scope_discipline[of twoScopes 1 ?c "''x''" "NumericValue 1" "NumericValue 7" True 0 ?g] g r[of "''x''"] by simp
  have 5: "Resolve st 0 ''x'' = Some (Ok 0)" if "scopes st 0 = Some sc" "variables sc ''x'' = Some v" for st sc v
    using that by (subst Resolve.simps) simp
  show ?thesis
    unfolding 1 2 3 4 by (simp add: valueOf_def bind_def Get_def resolved_def 5)
qed

subsection \<open>pop\<close>

text \<open>
  Claim C10.  \<open>A.pop\<close> is the bound method \<open>ArrayPop\<close>; calling it on an empty array is
  the fatal error, and calling it on a non-empty array stores the array without its last
  element in place (one element shorter) and returns the element removed.
\<close>

theorem pop_removes_last:
  "arrays st a = Some elements \<Longrightarrow>
     GetArrayMethod a ''pop'' = Ok (NativeFunctionValue (ArrayPop a))
   \<and> (elements = [] \<longrightarrow> callNative h (ArrayPop a) args s st = Exit PopFromEmptyArray)
   \<and> (elements \<noteq> [] \<longrightarrow>
        callNative h (ArrayPop a) args s st
          = Ok (last elements, st\<lparr>arrays := (arrays st)(a \<mapsto> butlast elements)\<rparr>)
        \<and> length (butlast elements) = length elements - 1
        \<and> butlast elements @ [last elements] = elements)"
proof (cases "elements = []")
  case True
  assume "arrays st a = Some elements"
  with True show ?thesis
    by (simp add: GetArrayMethod_def callNative_def ArrayPopMethod_def)
next
  case False
  assume a: "arrays st a = Some elements"
  have "ArrayPopMethod a args st
          = Ok (last elements, st\<lparr>arrays := (arrays st)(a \<mapsto> butlast elements)\<rparr>)"
    using a False by (simp add: ArrayPopMethod_def Let_def last_conv_nth butlast_conv_take)
  with False show ?thesis
    by (simp add: GetArrayMethod_def callNative_def)
qed

theorem pop_removes_last_witness:
  "callNative bareHost (ArrayPop 0) [] 0 (globalState\<lparr>arrays := [0 \<mapsto> []]\<rparr>) = Exit PopFromEmptyArray
   \<and> callNative bareHost (ArrayPop 0) [] 0 (globalState\<lparr>arrays := [0 \<mapsto> [NumericValue 1, NumericValue 2, NumericValue 3]]\<rparr>)
       = Ok (NumericValue 3, globalState\<lparr>arrays := [0 \<mapsto> [NumericValue 1, NumericValue 2]]\<rparr>)"
  using pop_removes_last[of "globalState\<lparr>arrays := [0 \<mapsto> []]\<rparr>" 0 "[]" bareHost "[]" 0]
        pop_removes_last[of "globalState\<lparr>arrays := [0 \<mapsto> [NumericValue 1, NumericValue 2, NumericValue 3]]\<rparr>" 0
                            "[NumericValue 1, NumericValue 2, NumericValue 3]" bareHost "[]" 0]
  by simp

subsection \<open>Arithmetic\<close>






subsection \<open>Calls\<close>

lemma bind_Ok_iff: "bind m f = Ok y \<longleftrightarrow> (\<exists>x. m = Ok x \<and> f x = Ok y)"
  by (cases m) (simp_all add: bind_def)

lemma evalList_Cons_Ok:
  "evalList ev (e # es) s st = Ok (rs, st') \<longleftrightarrow>
     (\<exists>v vs st1. ev e s st = Ok (v, st1) \<and> evalList ev es s st1 = Ok (vs, st') \<and> rs = v # vs)"
  by (auto simp: bind_Ok_iff)







text \<open>The scope a function value captures is the scope its declaration is evaluated in.\<close>

lemma function_declaration_captures_scope:
  "scopes st s = Some sc \<Longrightarrow> variables sc identifier = None \<Longrightarrow>
   evaluateFunctionDeclaration identifier parameters body s st =
     Ok (FunctionValue identifier parameters body s,
         st\<lparr>scopes := (scopes st)(s \<mapsto>
              sc\<lparr>variables := (variables sc)(identifier \<mapsto> FunctionValue identifier parameters body s)\<rparr>)\<rparr>)"
  by (simp add: evaluateFunctionDeclaration_def Declare_def bind_def)



subsection \<open>Logical operators\<close>

text \<open>
  Claim C5.  \<open>a && b\<close> and \<open>a || b\<close> evaluate both operands, the left one first: the
  result carries the state the right operand has left, and a right operand that fails
  makes the expression fail whatever the left one is.  Each value is coerced to a
  boolean by the truthiness rule and the result is the conjunction, respectively the
  disjunction, of the two.
\<close>

theorem logical_operators:
  assumes "ev left s st = Ok (l, st1)"
  shows "(ev right s st1 = Ok (r, st2) \<longrightarrow>
            evaluateBinaryExpression h ev left ''&&'' right s st = Ok (BooleanValue (isTruthy l \<and> isTruthy r), st2)
          \<and> evaluateBinaryExpression h ev left ''||'' right s st = Ok (BooleanValue (isTruthy l \<or> isTruthy r), st2))
       \<and> (ev right s st1 = Exit e \<longrightarrow>
            evaluateBinaryExpression h ev left ''&&'' right s st = Exit e
          \<and> evaluateBinaryExpression h ev left ''||'' right s st = Exit e)
       \<and> isTruthy NullValue = False
       \<and> isTruthy (BooleanValue b) = b
       \<and> isTruthy (NumericValue n) = (n \<noteq> 0)
       \<and> isTruthy (StringValue str) = (str \<noteq> [])
       \<and> (v \<noteq> NullValue \<and> \<not> isBooleanValue v \<and> \<not> isNumericValue v \<and> \<not> isStringValue v \<longrightarrow> isTruthy v)"
proof -
  have other: "isTruthy v" if "v \<noteq> NullValue" "\<not> isBooleanValue v" "\<not> isNumericValue v" "\<not> isStringValue v"
    using that by (cases v) simp_all
  show ?thesis
    using assms other
    by (simp add: evaluateBinaryExpression_def bind_def isComparisonOperator_def
                  evaluateComparisonExpression_def evaluateLogicalExpression_def)
qed

theorem logical_operators_witness:
  "evaluateBinaryExpression bareHost (Evaluate bareHost 2) (Boolean False) ''&&''
       (VariableAssignmentExpression (Identifier ''x'') (Numeric 1)) 0 scopeWithX
     = Ok (BooleanValue False,
           scopeWithX\<lparr>scopes := [0 \<mapsto> \<lparr>parent = None, variables = [''x'' \<mapsto> NumericValue 1], constants = {}\<rparr>]\<rparr>)
   \<and> evaluateBinaryExpression bareHost (Evaluate bareHost 2) (Boolean False) ''&&''
       (Identifier ''missing'') 0 scopeWithX
     = Exit (VariableNotFound ''missing'')"
proof -
  let ?ev = "Evaluate bareHost 2"
  let ?st = "scopeWithX\<lparr>scopes := [0 \<mapsto> \<lparr>parent = None, variables = [''x'' \<mapsto> NumericValue 1], constants = {}\<rparr>]\<rparr>"
  have l: "?ev (Boolean False) 0 scopeWithX = Ok (BooleanValue False, scopeWithX)"
    by (simp add: eval_nat_numeral dispatch_def)
  have r: "?ev (VariableAssignmentExpression (Identifier ''x'') (Numeric 1)) 0 scopeWithX = Ok (NumericValue 1, ?st)"
    by (simp add: eval_nat_numeral dispatch_def evaluateVariableAssignment_def scope_eval Resolve_eval scopeWithX_def)
  have m: "?ev (Identifier ''missing'') 0 scopeWithX = Exit (VariableNotFound ''missing'')"
    by (simp add: eval_nat_numeral dispatch_def evaluateIdentifier_def scope_eval Resolve_eval scopeWithX_def)
  show ?thesis
    using logical_operators[where ev = "?ev" and left = "Boolean False" and s = 0 and st = scopeWithX
            and l = "BooleanValue False" and ?st1.0 = scopeWithX and h = bareHost
            and right = "VariableAssignmentExpression (Identifier ''x'') (Numeric 1)"
            and r = "NumericValue 1" and ?st2.0 = "?st", OF l]
          logical_operators[where ev = "?ev" and left = "Boolean False" and s = 0 and st = scopeWithX
            and l = "BooleanValue False" and ?st1.0 = scopeWithX and h = bareHost
            and right = "Identifier ''missing''" and e = "VariableNotFound ''missing''", OF l]
          r m
    by simp
qed

subsection \<open>Return inside a loop\<close>

lemma infiniteLoop_ignores_return:
  assumes "\<And>st. ev stmt s st = Unfinished \<or> (\<exists>v. ev stmt s st = Ok (ReturnValue v, st))"
  shows "infiniteLoop ev k [stmt] s r st = Unfinished"
proof (induction k arbitrary: r st)
  case 0
  show ?case by simp
next
  case (Suc k)
  from assms[of st] show ?case
  proof
    assume "ev stmt s st = Unfinished"
    then show ?thesis by (simp add: bind_def)
  next
    assume "\<exists>v. ev stmt s st = Ok (ReturnValue v, st)"
    then obtain v where "ev stmt s st = Ok (ReturnValue v, st)" ..
    then show ?thesis by (simp add: bind_def Suc.IH)
  qed
qed

lemma Evaluate_return_literal:
  "Evaluate h k (ReturnStatement (Some (Numeric x))) s st = Unfinished
   \<or> (\<exists>v. Evaluate h k (ReturnStatement (Some (Numeric x))) s st = Ok (ReturnValue v, st))"
proof (cases k)
  case 0
  then show ?thesis by simp
next
  case (Suc j)
  then show ?thesis
    by (cases j) (simp_all add: dispatch_def evaluateReturnStatement_def bind_def)
qed

lemma returnInInfiniteLoop_unfinished:
  "valueOf (evaluateProgram (Evaluate bareHost n) returnInInfiniteLoop 0 globalState) = Unfinished"
proof (cases n)
  case 0
  then show ?thesis by (simp add: valueOf_def evaluateProgram_def returnInInfiniteLoop_def bind_def)
next
  case n: (Suc k)
  show ?thesis
  proof (cases k)
    case 0
    with n show ?thesis
      by (simp add: valueOf_def evaluateProgram_def returnInInfiniteLoop_def dispatch_def
          evaluateFunctionDeclaration_def evaluateCallExpression_def globalState_def scope_eval)
  next
    case k: (Suc j)
    show ?thesis
    proof (cases j)
      case 0
      with n k show ?thesis
        by (simp add: valueOf_def evaluateProgram_def returnInInfiniteLoop_def dispatch_def
            evaluateFunctionDeclaration_def evaluateCallExpression_def evaluateIdentifier_def
            globalState_def scope_eval Resolve_eval evaluateLoopStatement_def)
    next
      case (Suc i)
      with n k show ?thesis
        using infiniteLoop_ignores_return[of "Evaluate bareHost (Suc i)", OF Evaluate_return_literal]
        by (simp add: valueOf_def evaluateProgram_def returnInInfiniteLoop_def
            evaluateFunctionDeclaration_def evaluateCallExpression_def evaluateIdentifier_def
            globalState_def scope_eval Resolve_eval evaluateLoopStatement_def dispatch_def
            del: infiniteLoop.simps)
    qed
  qed
qed

text \<open>
  Claim C3 says that a \<open>return\<close> in the body of a loop stops the loop and is the value of
  the call.  The loops only look for the \<open>Break\<close> sentinel: the range loop of the first
  program runs its three iterations and the call yields the last value, 3, instead of 1;
  the infinite loop of the second program never ends, at any depth of evaluation.
\<close>

theorem return_inside_loop_is_ignored:
  "valueOf (evaluateProgram (Evaluate bareHost 10) returnInRangeLoop 0 globalState) = Ok (Some (NumericValue 3))
   \<and> (\<forall>n. valueOf (evaluateProgram (Evaluate bareHost n) returnInInfiniteLoop 0 globalState) = Unfinished)"
proof -
  have "valueOf (evaluateProgram (Evaluate bareHost 10) returnInRangeLoop 0 globalState) = Ok (Some (NumericValue 3))"
    by (simp add: returnInRangeLoop_def globalState_def eval_nat_numeral node_eval scope_eval Resolve_eval)
  then show ?thesis
    using returnInInfiniteLoop_unfinished by simp
qed

subsection \<open>Indexing\<close>

text \<open>
  Indexing an array, and indexing a string at a byte below \<open>0x80\<close>, return the element
  at the position before the truncated index; an index out of bounds, an index that is
  not a Numeric and a receiver that is neither an array nor a string are fatal.
\<close>

lemma index_of_array:
  assumes "ev arrayExpression s st = Ok (ArrayValue a, st1)"
    and "ev indexExpression s st1 = Ok (NumericValue i, st2)"
    and "arrays st2 a = Some elements"
  shows "evaluateArrayIndex ev arrayExpression indexExpression s st =
           (if 1 \<le> goInt i \<and> goInt i \<le> int (length elements)
            then Ok (elements ! nat (goInt i - 1), st2)
            else Exit (ArrayIndexOutOfBounds (goInt i) (length elements)))"
  using assms by (auto simp: evaluateArrayIndex_def bind_def asNumeric_def Let_def)

lemma index_of_string:
  assumes "ev arrayExpression s st = Ok (StringValue str, st1)"
    and "ev indexExpression s st1 = Ok (NumericValue i, st2)"
  shows "evaluateArrayIndex ev arrayExpression indexExpression s st =
           (if 1 \<le> goInt i \<and> goInt i \<le> int (length str)
            then Ok (StringValue (stringOfByte (str ! nat (goInt i - 1))), st2)
            else Exit (StringIndexOutOfBounds (goInt i) (length str)))"
  using assms by (auto simp: evaluateArrayIndex_def bind_def asNumeric_def Let_def)

lemma stringOfByte_ascii: "(of_char c :: nat) < 128 \<Longrightarrow> stringOfByte c = [c]"
  by (simp add: stringOfByte_def)

lemma stringOfByte_beyond_ascii: "\<not> (of_char c :: nat) < 128 \<Longrightarrow> length (stringOfByte c) = 2"
  by (simp add: stringOfByte_def)

lemma index_of_other:
  assumes "ev arrayExpression s st = Ok (v, st1)"
    and "ev indexExpression s st1 = Ok (iv, st2)"
  shows "\<not> isNumericValue iv \<Longrightarrow> evaluateArrayIndex ev arrayExpression indexExpression s st = Exit IndexMustBeNumeric"
    and "isNumericValue iv \<Longrightarrow> \<not> isStringValue v \<Longrightarrow> \<forall>a. v \<noteq> ArrayValue a \<Longrightarrow>
         evaluateArrayIndex ev arrayExpression indexExpression s st = Exit CannotIndexType"
  using assms
  by (cases iv; cases v; simp add: evaluateArrayIndex_def bind_def asNumeric_def Let_def)+

text \<open>
  Claim C2 says that indexing a string yields the string of length one that holds the
  byte at the index.  For a byte from \<open>0x80\<close> on, the conversion \<open>string(b)\<close> yields the
  two bytes of the UTF-8 encoding of the code point \<open>b\<close>: the first byte of the string
  \<open>0xC3 0xA9\<close> is returned as the string \<open>0xC3 0x83\<close>.
\<close>

theorem string_index_non_ascii:
  "valueOf (evaluateArrayIndex (Evaluate bareHost 1) (String [CHR 0xC3, CHR 0xA9]) (Numeric 1) 0 globalState)
     = Ok (StringValue [CHR 0xC3, CHR 0x83])"
  by code_simp

subsection \<open>Imports\<close>

lemma processStatements_other:
  "\<forall>path. stmt \<noteq> ImportStatement path \<Longrightarrow>
   processStatements fs load (stmt # rest) baseDir visited =
     (case processStatements fs load rest baseDir visited of
        Imported (result, visited2) \<Rightarrow> Imported (stmt # result, visited2)
      | Failed err \<Rightarrow> Failed err
      | SyntaxExit \<Rightarrow> SyntaxExit
      | Pending \<Rightarrow> Pending)"
  by (cases stmt; clarsimp)

lemma processStatements_grows:
  assumes load: "\<And>p v r v'. load p v = Imported (r, v') \<Longrightarrow> v \<subseteq> v'"
  shows "processStatements fs load statements baseDir visited = Imported (result, visited') \<Longrightarrow>
         visited \<subseteq> visited'"
proof (induction statements arbitrary: visited result)
  case Nil
  then show ?case by simp
next
  case (Cons stmt rest)
  show ?case
  proof (cases "\<exists>path. stmt = ImportStatement path")
    case False
    then have "\<forall>path. stmt \<noteq> ImportStatement path" by blast
    from Cons.prems[unfolded processStatements_other[OF this]]
    obtain r where "processStatements fs load rest baseDir visited = Imported (r, visited')"
      by (auto split: importing.splits)
    then show ?thesis by (rule Cons.IH)
  next
    case True
    then obtain path where stmt: "stmt = ImportStatement path" ..
    let ?p = "resolveImportPath fs path baseDir"
    from Cons.prems obtain a imported v1 r where
      a: "absPath fs ?p = Some a" "a \<notin> visited"
      and l: "load ?p (insert a visited) = Imported (imported, v1)"
      and r: "processStatements fs load rest baseDir v1 = Imported (r, visited')"
      unfolding stmt by (auto simp: Let_def split: option.splits if_splits importing.splits)
    from load[OF l] Cons.IH[OF r] show ?thesis by blast
  qed
qed

lemma processStatementsWithImports_grows:
  "processStatementsWithImports fs k statements baseDir visited = Imported (result, visited') \<Longrightarrow>
   visited \<subseteq> visited'"
proof (induction k arbitrary: statements baseDir visited result visited')
  case 0
  then show ?case by simp
next
  case (Suc k)
  have "v \<subseteq> v'" if "loadAndParseFile fs (processStatementsWithImports fs k) p v = Imported (r, v')" for p v r v'
    using that Suc.IH by (auto simp: loadAndParseFile_def split: option.splits)
  then show ?case
    using Suc.prems processStatements_grows[of "loadAndParseFile fs (processStatementsWithImports fs k)"]
    by simp
qed

text \<open>
  Claim C8.  Within one pass the set of visited absolute paths only grows: whatever a
  call of the resolver returns contains the set it was given.  An import whose absolute
  path is in the set fails with the circular-import error, whether or not the file is on
  the current chain of imports.  A first import adds the path to the set, puts the
  statements of the file in the place of the import statement, and leaves the path in
  the set for the rest of the pass.
\<close>

theorem visited_only_grows:
  "(processStatementsWithImports fs k statements baseDir visited = Imported (result, visited') \<longrightarrow>
      visited \<subseteq> visited')
   \<and> (absPath fs (resolveImportPath fs path baseDir) = Some absolute \<longrightarrow>
        (absolute \<in> visited \<longrightarrow>
           processStatementsWithImports fs (Suc k) (ImportStatement path # rest) baseDir visited
             = Failed (CircularImport (resolveImportPath fs path baseDir)))
      \<and> (absolute \<notin> visited \<longrightarrow>
           loadAndParseFile fs (processStatementsWithImports fs k) (resolveImportPath fs path baseDir)
               (insert absolute visited) = Imported (imported, visited1) \<longrightarrow>
           processStatementsWithImports fs (Suc k) rest baseDir visited1 = Imported (others, visited2) \<longrightarrow>
             processStatementsWithImports fs (Suc k) (ImportStatement path # rest) baseDir visited
               = Imported (imported @ others, visited2)
           \<and> absolute \<in> visited1 \<and> absolute \<in> visited2))"
proof (intro conjI impI)
  assume "processStatementsWithImports fs k statements baseDir visited = Imported (result, visited')"
  then show "visited \<subseteq> visited'" by (rule processStatementsWithImports_grows)
next
  assume "absPath fs (resolveImportPath fs path baseDir) = Some absolute" "absolute \<in> visited"
  then show "processStatementsWithImports fs (Suc k) (ImportStatement path # rest) baseDir visited
      = Failed (CircularImport (resolveImportPath fs path baseDir))"
    by (simp add: Let_def)
next
  assume a: "absPath fs (resolveImportPath fs path baseDir) = Some absolute" "absolute \<notin> visited"
    and l: "loadAndParseFile fs (processStatementsWithImports fs k) (resolveImportPath fs path baseDir)
               (insert absolute visited) = Imported (imported, visited1)"
    and r: "processStatementsWithImports fs (Suc k) rest baseDir visited1 = Imported (others, visited2)"
  from a l r show "processStatementsWithImports fs (Suc k) (ImportStatement path # rest) baseDir visited
               = Imported (imported @ others, visited2)"
    by (simp add: Let_def)
  from l obtain stmts where
    "processStatementsWithImports fs k stmts (dirOf fs (resolveImportPath fs path baseDir))
       (insert absolute visited) = Imported (imported, visited1)"
    by (auto simp: loadAndParseFile_def split: option.splits)
  then have "insert absolute visited \<subseteq> visited1" by (rule processStatementsWithImports_grows)
  then show "absolute \<in> visited1" by simp
  moreover from r have "visited1 \<subseteq> visited2" by (rule processStatementsWithImports_grows)
  ultimately show "absolute \<in> visited2" by blast
qed

lemmas imports_eval =
  loadAndParseFile_def resolveImportPath_def hasSuffix_def diamond_def Let_def eval_nat_numeral

theorem visited_only_grows_witness:
  "processStatementsWithImports diamond 3 [ImportStatement ''b''] ''.'' {}
     = Imported ([VariableDeclaration False ''shared'' (Some (Numeric 1))], {''d.gloob'', ''b.gloob''})
   \<and> processStatementsWithImports diamond 3 [ImportStatement ''b'', ImportStatement ''c''] ''.'' {}
     = Failed (ImportFailed ''c'' (CircularImport ''d.gloob''))"
proof -
  have p: "resolveImportPath diamond ''d'' ''.'' = ''d.gloob''"
    "resolveImportPath diamond ''b'' ''.'' = ''b.gloob''"
    "absPath diamond x = Some x" for x
    by (simp_all add: imports_eval)
  have d2: "processStatementsWithImports diamond (Suc 0) [ImportStatement ''d''] ''.''
       {''c.gloob'', ''d.gloob'', ''b.gloob''} = Failed (CircularImport ''d.gloob'')"
    using visited_only_grows[where fs = diamond and path = "''d''" and baseDir = "''.''"
        and absolute = "''d.gloob''" and visited = "{''c.gloob'', ''d.gloob'', ''b.gloob''}"
        and k = 0 and rest = "[]"]
    by (simp add: p)
  have l: "loadAndParseFile diamond (processStatementsWithImports diamond 2) ''b.gloob'' {''b.gloob''}
       = Imported ([VariableDeclaration False ''shared'' (Some (Numeric 1))], {''d.gloob'', ''b.gloob''})"
    by (simp add: imports_eval)
  have b: "processStatementsWithImports diamond 3 [ImportStatement ''b''] ''.'' {}
     = Imported ([VariableDeclaration False ''shared'' (Some (Numeric 1))], {''d.gloob'', ''b.gloob''})"
    using visited_only_grows[where fs = diamond and path = "''b''" and baseDir = "''.''"
        and absolute = "''b.gloob''" and visited = "{}" and k = 2 and rest = "[]"
        and imported = "[VariableDeclaration False ''shared'' (Some (Numeric 1))]"
        and ?visited1.0 = "{''d.gloob'', ''b.gloob''}" and others = "[]"
        and ?visited2.0 = "{''d.gloob'', ''b.gloob''}"] l
    by (simp add: p eval_nat_numeral)
  have c: "processStatementsWithImports diamond 3 [ImportStatement ''b'', ImportStatement ''c''] ''.'' {}
     = Failed (ImportFailed ''c'' (CircularImport ''d.gloob''))"
    using d2 by (simp add: imports_eval)
  from b c show ?thesis by simp
qed

subsection \<open>Objects\<close>

lemma evalProperties_map:
  "evalList ev (map snd props) s st = Ok (vs, st') \<Longrightarrow>
   evalProperties ev props s m st = Ok (m ++ map_of (rev (zip (map fst props) vs)), st')"
proof (induction props arbitrary: m st vs)
  case Nil
  then show ?case by simp
next
  case (Cons property rest)
  from Cons.prems[unfolded list.map evalList_Cons_Ok]
  obtain v vs' st1 where e: "ev (snd property) s st = Ok (v, st1)"
    and es: "evalList ev (map snd rest) s st1 = Ok (vs', st')" and vs: "vs = v # vs'"
    by blast
  have m: "m(fst property \<mapsto> v) ++ map_of (rev (zip (map fst rest) vs'))
      = m ++ map_of (rev (zip (map fst (property # rest)) vs))"
    unfolding vs by (simp add: map_of_append)
  have "evalProperties ev (property # rest) s m st = evalProperties ev rest s (m(fst property \<mapsto> v)) st1"
    using e by (simp add: bind_def)
  also have "\<dots> = Ok (m(fst property \<mapsto> v) ++ map_of (rev (zip (map fst rest) vs')), st')"
    by (rule Cons.IH[OF es])
  finally show ?case
    unfolding m .
qed

lemma dom_map_of_rev_zip:
  "length ks = length vs \<Longrightarrow> dom (map_of (rev (zip ks vs))) = set ks"
  by (simp add: dom_map_of_conv_image_fst flip: set_map zip_rev)

lemma evalList_length:
  "evalList ev es s st = Ok (vs, st') \<Longrightarrow> length vs = length es"
  by (induction es arbitrary: st vs) (auto simp: bind_Ok_iff)

lemma map_of_rev_last:
  "length ks = length vs \<Longrightarrow> i < length ks \<Longrightarrow> \<forall>j. i < j \<and> j < length ks \<longrightarrow> ks ! j \<noteq> ks ! i \<Longrightarrow>
   map_of (rev (zip ks vs)) (ks ! i) = Some (vs ! i)"
proof (induction ks arbitrary: vs i)
  case Nil
  then show ?case by simp
next
  case (Cons k ks)
  then obtain v vs' where vs: "vs = v # vs'" by (cases vs) auto
  show ?case
  proof (cases i)
    case 0
    have "k \<notin> set ks"
    proof
      assume "k \<in> set ks"
      then obtain j where "j < length ks" "ks ! j = k" by (auto simp: in_set_conv_nth)
      with Cons.prems(3)[rule_format, of "Suc j"] 0 show False by simp
    qed
    then have "map_of (rev (zip ks vs')) k = None"
      by (auto simp: map_of_eq_None_iff dest: set_zip_leftD)
    with 0 vs show ?thesis by (simp add: map_of_append map_add_def)
  next
    case (Suc n)
    have "\<forall>j. n < j \<and> j < length ks \<longrightarrow> ks ! j \<noteq> ks ! n"
    proof (intro allI impI)
      fix j assume "n < j \<and> j < length ks"
      with Cons.prems(3)[rule_format, of "Suc j"] Suc show "ks ! j \<noteq> ks ! n" by simp
    qed
    with Cons.prems Suc vs have "map_of (rev (zip ks vs')) (ks ! n) = Some (vs' ! n)"
      by (intro Cons.IH) auto
    with Suc vs show ?thesis by (simp add: map_of_append map_add_def)
  qed
qed

text \<open>
  Claim C9, as amended.  The object of a literal whose property values evaluate is a new
  map from the keys of the literal to their values, the last property winning when a key
  occurs twice.  An enumeration of it is any list that holds each key of the literal
  exactly once: nothing of the order of the literal is kept.
\<close>

theorem object_literal_is_a_map:
  assumes "evalList ev (map snd props) s st = Ok (vs, st')"
  shows "(let properties = map_of (rev (zip (map fst props) vs)) in
          evaluateObject ev props s st
            = Ok (ObjectValue (nextObject st'),
                  st'\<lparr>objects := (objects st')(nextObject st' \<mapsto> properties), nextObject := Suc (nextObject st')\<rparr>)
        \<and> dom properties = set (map fst props)
        \<and> (\<forall>i<length props. (\<forall>j. i < j \<and> j < length props \<longrightarrow> fst (props ! j) \<noteq> fst (props ! i)) \<longrightarrow>
              properties (fst (props ! i)) = Some (vs ! i))
        \<and> (\<forall>ks. rangesOver properties ks \<longleftrightarrow> distinct ks \<and> set ks = set (map fst props)))"
proof -
  have len: "length (map fst props) = length vs"
    using evalList_length[OF assms] by simp
  have d: "dom (map_of (rev (zip (map fst props) vs))) = set (map fst props)"
    using dom_map_of_rev_zip[OF len] .
  have l: "map_of (rev (zip (map fst props) vs)) (fst (props ! i)) = Some (vs ! i)"
    if "i < length props" "\<forall>j. i < j \<and> j < length props \<longrightarrow> fst (props ! j) \<noteq> fst (props ! i)" for i
    using map_of_rev_last[OF len, of i] that by simp
  show ?thesis
    unfolding Let_def
    using evalProperties_map[OF assms, of Map.empty] d l
    by (simp add: evaluateObject_def bind_def rangesOver_def)
qed

text \<open>
  The claim as written says that an enumeration yields the keys in the order of the
  literal.  For \<^verbatim>\<open>{ b: 1, a: 2 }\<close> the order \<open>a, b\<close> is an enumeration as well; for
  \<^verbatim>\<open>{ a: 1, b: 2, a: 3 }\<close>, which the parser accepts, the keys \<open>a, b, a\<close> of the literal
  are no enumeration at all.
\<close>

theorem object_literal_order_counterexample:
  "evaluateObject (Evaluate bareHost 1) [(''b'', Numeric 1), (''a'', Numeric 2)] 0 globalState
     = Ok (ObjectValue 0,
           globalState\<lparr>objects := [0 \<mapsto> [''b'' \<mapsto> NumericValue 1, ''a'' \<mapsto> NumericValue 2]], nextObject := 1\<rparr>)
   \<and> rangesOver [''b'' \<mapsto> NumericValue 1, ''a'' \<mapsto> NumericValue 2] [''a'', ''b'']
   \<and> [''a'', ''b''] \<noteq> map fst [(''b'', Numeric 1), (''a'', Numeric 2)]
   \<and> evaluateObject (Evaluate bareHost 1) [(''a'', Numeric 1), (''b'', Numeric 2), (''a'', Numeric 3)] 0 globalState
     = Ok (ObjectValue 0,
           globalState\<lparr>objects := [0 \<mapsto> [''a'' \<mapsto> NumericValue 3, ''b'' \<mapsto> NumericValue 2]], nextObject := 1\<rparr>)
   \<and> \<not> rangesOver [''a'' \<mapsto> NumericValue 3, ''b'' \<mapsto> NumericValue 2]
          (map fst [(''a'', Numeric 1), (''b'', Numeric 2), (''a'', Numeric 3)])"
proof -
  have "[''a'' \<mapsto> NumericValue 1, ''b'' \<mapsto> NumericValue 2, ''a'' \<mapsto> NumericValue 3]
      = [''a'' \<mapsto> NumericValue 3, ''b'' \<mapsto> NumericValue 2]"
    by (auto simp: fun_eq_iff)
  then show ?thesis
    by (simp add: evaluateObject_def dispatch_def bind_def rangesOver_def globalState_def)
qed

theorem object_literal_is_a_map_witness:
  "evaluateObject (Evaluate bareHost 1) [(''name'', String ''Jane Doe''), (''age'', Numeric 25)] 0 globalState
     = Ok (ObjectValue 0,
           globalState\<lparr>objects := [0 \<mapsto> [''name'' \<mapsto> StringValue ''Jane Doe'', ''age'' \<mapsto> NumericValue 25]],
                        nextObject := Suc 0\<rparr>)
   \<and> rangesOver [''name'' \<mapsto> StringValue ''Jane Doe'', ''age'' \<mapsto> NumericValue 25] [''age'', ''name'']
   \<and> rangesOver [''name'' \<mapsto> StringValue ''Jane Doe'', ''age'' \<mapsto> NumericValue 25] [''name'', ''age'']"
proof -
  let ?props = "[(''name'', String ''Jane Doe''), (''age'', Numeric 25)]"
  have e: "evalList (Evaluate bareHost 1) (map snd ?props) 0 globalState
      = Ok ([StringValue ''Jane Doe'', NumericValue 25], globalState)"
    by (simp add: dispatch_def bind_def)
  have n: "nextObject globalState = 0" "objects globalState = Map.empty"
    by (simp_all add: globalState_def)
  have m: "map_of (rev (zip (map fst ?props) [StringValue ''Jane Doe'', NumericValue 25]))
      = [''name'' \<mapsto> StringValue ''Jane Doe'', ''age'' \<mapsto> NumericValue 25]"
    by simp
  from object_literal_is_a_map[OF e, unfolded Let_def m n]
  show ?thesis by auto
qed

subsection \<open>Range loops\<close>






end
